theory Spec2Isabelle
  imports Main "HOL-Library.Sublist"
begin

section \<open>The Firehose output plugin (firehose/firehose.go)\<close>

text \<open>
  A shallow embedding of the batch accumulator of \<^verbatim>\<open>firehose.go\<close>: \<^verbatim>\<open>AddRecord\<close>,
  \<^verbatim>\<open>Flush\<close>, \<^verbatim>\<open>processRecord\<close>, \<^verbatim>\<open>sendCurrentBatch\<close> and \<^verbatim>\<open>processAPIResponse\<close>.
  The methods mutate the \<^verbatim>\<open>OutputPlugin\<close> they are called on; here each takes the
  plugin's state and returns the new one. Whatever the plugin reads from outside (the
  clock, the delivery client, the encoders of the \<^verbatim>\<open>plugins\<close> package and of the JSON
  library) is a field of an environment handed to every call. Log output is not modelled.
\<close>

subsection \<open>Constants (lines 37--43)\<close>

type_synonym bytes = string

definition maximumRecordsPerPut :: int where
  "maximumRecordsPerPut = 500"

definition maximumPutRecordBatchSize :: int where
  "maximumPutRecordBatchSize = 4194304"

definition maximumRecordSize :: int where
  "maximumRecordSize = 1024000"

definition truncatedSuffix :: string where
  "truncatedSuffix = ''[Truncated...]''"

text \<open>The SDK's \<^verbatim>\<open>firehose.ErrCodeServiceUnavailableException\<close>.\<close>

definition ErrCodeServiceUnavailableException :: string where
  "ErrCodeServiceUnavailableException = ''ServiceUnavailableException''"

subsection \<open>Data\<close>

text \<open>
  The status codes of fluent-bit-go that the plugin returns, Go's \<^verbatim>\<open>error\<close> values
  (an \<^verbatim>\<open>awserr.Error\<close> with its code and message, or any other error with its text), and
  how a call ends: it returns, the process exits through the watchdog's callback
  (\<^verbatim>\<open>os.Exit(1)\<close>, lines 81--85), or the Go runtime panics.
\<close>

datatype retcode = FLB_ERROR | FLB_OK | FLB_RETRY

datatype error = AwsError string string | Errorf string

datatype 'a outcome = Return 'a | Exit | Panic

text \<open>
  \<^verbatim>\<open>firehose.Record\<close>, \<^verbatim>\<open>firehose.PutRecordBatchInput\<close>, \<^verbatim>\<open>firehose.PutRecordBatchOutput\<close> and
  \<^verbatim>\<open>firehose.PutRecordBatchResponseEntry\<close> of the SDK. The fields the SDK leaves unset
  are nil pointers there and \<open>None\<close> here; \<^verbatim>\<open>aws.Int64Value\<close> and \<^verbatim>\<open>aws.StringValue\<close>
  read a nil pointer as the zero value. \<^verbatim>\<open>FailedPutCount\<close> is an int64 that the code only
  compares, so it is an \<open>int\<close>.
\<close>

record Record =
  Data :: bytes

record PutRecordBatchInput =
  DeliveryStreamName :: string
  Records :: "Record list"

record PutRecordBatchResponseEntry =
  ErrorCode :: "string option"
  ErrorMessage :: "string option"
  RecordId :: "string option"

record PutRecordBatchOutput =
  FailedPutCount :: "int option"
  RequestResponses :: "PutRecordBatchResponseEntry list"

definition Int64Value :: "int option \<Rightarrow> int" where
  "Int64Value p = (case p of None \<Rightarrow> 0 | Some v \<Rightarrow> v)"

definition StringValue :: "string option \<Rightarrow> string" where
  "StringValue p = (case p of None \<Rightarrow> [] | Some v \<Rightarrow> v)"

text \<open>
  A log record is a \<^verbatim>\<open>map[interface{}]interface{}\<close>. The plugin itself only stores a
  string under a string key (line 191); every other dynamic value stays opaque.
\<close>

datatype 'v iface = Str string | Dyn 'v

type_synonym 'v fluent_record = "'v iface \<rightharpoonup> 'v iface"

subsection \<open>The failure watchdog (plugins.Timeout)\<close>

text \<open>
  Modelled from the spec: the type \<^verbatim>\<open>plugins.Timeout\<close> is code of the \<^verbatim>\<open>plugins\<close> package,
  which is not among the sources. The spec (3, Failure Window) gives it an optional
  time stamp failing-since, absent when the last attempt succeeded or none was made,
  and (4.3) a configured threshold. Instants and durations are integers.
\<close>

record Timeout =
  failingSince :: "int option"
  threshold :: int

text \<open>
  Modelled from the spec: the method \<^verbatim>\<open>Start\<close> of \<^verbatim>\<open>plugins.Timeout\<close>, not among the
  sources. The spec (4.3): set failing-since to now only if not already set.
\<close>

definition Timeout_Start :: "int \<Rightarrow> Timeout \<Rightarrow> Timeout" where
  "Timeout_Start t tm =
     (case failingSince tm of None \<Rightarrow> tm\<lparr>failingSince := Some t\<rparr> | Some _ \<Rightarrow> tm)"

text \<open>
  Modelled from the spec: the method \<^verbatim>\<open>Check\<close> of \<^verbatim>\<open>plugins.Timeout\<close>, not among the
  sources. The spec (4.3): if failing-since is set and the elapsed time exceeds the
  configured threshold, invoke the fatal callback. \<open>Timeout_Check\<close> tells whether the
  callback is invoked; the callback is the one the constructor passes (lines 81--85),
  which exits the process.
\<close>

definition Timeout_Check :: "int \<Rightarrow> Timeout \<Rightarrow> bool" where
  "Timeout_Check t tm =
     (case failingSince tm of None \<Rightarrow> False | Some t0 \<Rightarrow> t - t0 > threshold tm)"

text \<open>
  Modelled from the spec: the method \<^verbatim>\<open>Reset\<close> of \<^verbatim>\<open>plugins.Timeout\<close>, not among the
  sources. The spec (4.3): clear failing-since unconditionally.
\<close>

definition Timeout_Reset :: "Timeout \<Rightarrow> Timeout" where
  "Timeout_Reset tm = tm\<lparr>failingSince := None\<rparr>"

subsection \<open>The plugin's state and its environment\<close>

text \<open>
  The struct of lines 56--70. The \<^verbatim>\<open>client\<close> field is the remote service, which answers
  every call anew: it is a field of the environment. \<^verbatim>\<open>fmtStrftime\<close> is a nil pointer
  when no time key is configured, and otherwise a formatter whose \<^verbatim>\<open>Format\<close> gives the
  formatted time or an error. \<^verbatim>\<open>dataLength\<close> is a Go \<^verbatim>\<open>int\<close>; it is the sum of the
  lengths of byte slices held in memory, so it does not wrap around.
\<close>

record OutputPlugin =
  region :: string
  deliveryStream :: string
  dataKeys :: string
  timeKey :: string
  fmtStrftime :: "(int \<Rightarrow> error + string) option"
  logKey :: string
  records :: "Record list"
  dataLength :: int
  timer :: Timeout
  PluginID :: int
  replaceDots :: string
  simpleAggregation :: bool

text \<open>
  What a call finds outside the plugin: the time of \<^verbatim>\<open>time.Now()\<close> (one instant for
  the whole call, so the watchdog's \<^verbatim>\<open>Check\<close> and \<^verbatim>\<open>Start\<close> of one send read the same
  time), the answer of
  \<^verbatim>\<open>client.PutRecordBatch\<close> to a request, the functions \<^verbatim>\<open>DataKeys\<close>, \<^verbatim>\<open>DecodeMap\<close>,
  \<^verbatim>\<open>LogKey\<close> and \<^verbatim>\<open>EncodeLogKey\<close> of the \<^verbatim>\<open>plugins\<close> package and \<^verbatim>\<open>json.Marshal\<close>. The
  function \<^verbatim>\<open>replaceDots\<close> of lines 233--250 renames keys of the map it is ranging over
  (Go leaves open whether a range visits an entry added meanwhile) and recurses into
  nested maps, which are opaque here; it is taken from the environment as well, and
  nothing below depends on what it returns. \<^verbatim>\<open>EncodeLogKey\<close> gives the pair of Go's two
  results, the bytes and the error (\<open>None\<close> for nil): \<^verbatim>\<open>processRecord\<close> uses its bytes
  whatever its error is. Of the other functions only the error or the value is used.
\<close>

record 'v env =
  now :: int
  PutRecordBatch :: "PutRecordBatchInput \<Rightarrow> error + PutRecordBatchOutput"
  DataKeys :: "string \<Rightarrow> 'v fluent_record \<Rightarrow> 'v fluent_record"
  DecodeMap :: "'v fluent_record \<Rightarrow> error + 'v fluent_record"
  replaceDotsFn :: "'v fluent_record \<Rightarrow> string \<Rightarrow> 'v fluent_record"
  LogKey :: "'v fluent_record \<Rightarrow> string \<Rightarrow> error + 'v iface"
  EncodeLogKey :: "'v iface \<Rightarrow> bytes \<times> error option"
  Marshal :: "'v fluent_record \<Rightarrow> error + bytes"

subsection \<open>NewOutputPlugin (lines 73--117)\<close>

text \<open>
  The constructor, given what \<^verbatim>\<open>newPutRecordBatcher\<close> (session and credentials, lines
  119--178), \<^verbatim>\<open>plugins.NewTimeout\<close> and \<^verbatim>\<open>strftime.New\<close> return. The batch starts empty
  (\<^verbatim>\<open>make([]*firehose.Record, 0, maximumRecordsPerPut)\<close>) and \<^verbatim>\<open>dataLength\<close> at Go's zero
  value.
\<close>

definition defaultTimeFmt :: string where
  "defaultTimeFmt = ''%Y-%m-%dT%H:%M:%S''"

definition NewOutputPlugin ::
  "(error + unit) \<Rightarrow> (error + Timeout) \<Rightarrow> (string \<Rightarrow> error + (int \<Rightarrow> error + string)) \<Rightarrow>
   string \<Rightarrow> string \<Rightarrow> string \<Rightarrow> string \<Rightarrow> string \<Rightarrow> string \<Rightarrow> string \<Rightarrow> int \<Rightarrow> bool \<Rightarrow>
   error + OutputPlugin" where
  "NewOutputPlugin newPutRecordBatcher NewTimeout strftimeNew
       region' deliveryStream' dataKeys' timeKey' timeFmt logKey' replaceDots' pluginID
       simpleAggregation' =
     (case newPutRecordBatcher of
        Inl err \<Rightarrow> Inl err
      | Inr _ \<Rightarrow>
        (case NewTimeout of
           Inl err \<Rightarrow> Inl err
         | Inr timer' \<Rightarrow>
           (case (if timeKey' \<noteq> []
                  then (case strftimeNew (if timeFmt = [] then defaultTimeFmt else timeFmt) of
                          Inl err \<Rightarrow> Inl err
                        | Inr f \<Rightarrow> Inr (Some f))
                  else Inr None) of
              Inl err \<Rightarrow> Inl err
            | Inr timeFormatter \<Rightarrow>
              Inr \<lparr>region = region', deliveryStream = deliveryStream', dataKeys = dataKeys',
                   timeKey = timeKey', fmtStrftime = timeFormatter, logKey = logKey',
                   records = [], dataLength = 0, timer = timer', PluginID = pluginID,
                   replaceDots = replaceDots', simpleAggregation = simpleAggregation'\<rparr>)))"

subsection \<open>processRecord (lines 252--297)\<close>

text \<open>
  \<open>encodeRecord\<close> is lines 253--288: the record's keys are selected, decoded and
  rewritten, the record is encoded (its log key alone, or all of it as JSON) and a
  newline is appended. \<open>truncateRecord\<close> is lines 290--294, and \<open>processRecord\<close> the whole
  function.

  With a log key, line 272 declares a new \<^verbatim>\<open>err\<close> inside the \<^verbatim>\<open>if\<close> block
  (\<^verbatim>\<open>log, err := plugins.LogKey(...)\<close>), and line 277 assigns the error of \<^verbatim>\<open>EncodeLogKey\<close>
  to that inner variable. The test of line 282 reads the outer \<^verbatim>\<open>err\<close>, which is nil
  since \<^verbatim>\<open>DecodeMap\<close> succeeded: an error of \<^verbatim>\<open>EncodeLogKey\<close> is lost, and the bytes it
  returned go on with a newline. The error of \<^verbatim>\<open>json.Marshal\<close> is assigned to the outer
  variable and is returned.
\<close>

definition encodeRecord :: "'v env \<Rightarrow> OutputPlugin \<Rightarrow> 'v fluent_record \<Rightarrow> error + bytes" where
  "encodeRecord e s record =
     (let record1 = (if dataKeys s \<noteq> [] then DataKeys e (dataKeys s) record else record) in
      case DecodeMap e record1 of
        Inl err \<Rightarrow> Inl err
      | Inr record2 \<Rightarrow>
        (let record3 = (if replaceDots s \<noteq> [] then replaceDotsFn e record2 (replaceDots s)
                        else record2) in
         case (if logKey s \<noteq> []
               then (case LogKey e record3 (logKey s) of
                       Inl err \<Rightarrow> Inl err
                     | Inr log \<Rightarrow> (case EncodeLogKey e log of (data, err) \<Rightarrow> Inr data))
               else Marshal e record3) of
           Inl err \<Rightarrow> Inl err
         | Inr data \<Rightarrow> Inr (data @ [CHR 0x0A])))"

definition truncateRecord :: "bytes \<Rightarrow> bytes" where
  "truncateRecord data =
     (if int (length data) > maximumRecordSize
      then take (nat (maximumRecordSize - int (length truncatedSuffix))) data @ truncatedSuffix
      else data)"

definition processRecord :: "'v env \<Rightarrow> OutputPlugin \<Rightarrow> 'v fluent_record \<Rightarrow> error + bytes" where
  "processRecord e s record =
     (case encodeRecord e s record of
        Inl err \<Rightarrow> Inl err
      | Inr data \<Rightarrow> Inr (truncateRecord data))"

subsection \<open>processAPIResponse (lines 328--365)\<close>

text \<open>
  The loop of lines 339--348 over the response's entries, with the index \<open>i\<close> and the
  failed records collected so far. An entry with an error message takes
  \<^verbatim>\<open>output.records[i]\<close>, which panics when \<open>i\<close> is out of range; then an entry with the
  service-unavailable code ends the walk.
\<close>

datatype walk = Collected "Record list" | Overloaded | IndexOutOfRange

fun collectFailed ::
  "Record list \<Rightarrow> PutRecordBatchResponseEntry list \<Rightarrow> nat \<Rightarrow> Record list \<Rightarrow> walk" where
  "collectFailed rs [] i failedRecords = Collected failedRecords"
| "collectFailed rs (record # rest) i failedRecords =
     (if ErrorMessage record \<noteq> None \<and> \<not> i < length rs then IndexOutOfRange
      else if StringValue (ErrorCode record) = ErrCodeServiceUnavailableException then Overloaded
      else collectFailed rs rest (Suc i)
             (if ErrorMessage record \<noteq> None then failedRecords @ [rs ! i] else failedRecords))"

text \<open>
  The loop of lines 353--355. In \<open>processAPIResponse\<close> below, the capacity that line 337
  asks for is left out: the allocation is taken to succeed.
\<close>

definition totalLength :: "Record list \<Rightarrow> int" where
  "totalLength rs = foldl (\<lambda>n record. n + int (length (Data record))) 0 rs"

definition noRecordsReceived :: error where
  "noRecordsReceived =
     Errorf ''PutRecordBatch request returned with no records successfully recieved''"

definition processAPIResponse ::
  "'v env \<Rightarrow> PutRecordBatchOutput \<Rightarrow> OutputPlugin \<Rightarrow>
   ((retcode \<times> error option) \<times> OutputPlugin) outcome" where
  "processAPIResponse e response s =
     (if Int64Value (FailedPutCount response) > 0 then
        (if Int64Value (FailedPutCount response) = int (length (records s))
         then Return ((FLB_RETRY, Some noRecordsReceived),
                      s\<lparr>timer := Timeout_Start (now e) (timer s)\<rparr>)
         else
           (case collectFailed (records s) (RequestResponses response) 0 [] of
              IndexOutOfRange \<Rightarrow> Panic
            | Overloaded \<Rightarrow> Return ((FLB_RETRY, None), s)
            | Collected failedRecords \<Rightarrow>
                Return ((FLB_OK, None),
                        s\<lparr>records := failedRecords, dataLength := totalLength failedRecords\<rparr>)))
      else Return ((FLB_OK, None),
                   s\<lparr>timer := Timeout_Reset (timer s), records := [], dataLength := 0\<rparr>))"

subsection \<open>sendCurrentBatch (lines 299--324) and Flush (lines 225--231)\<close>

definition sendCurrentBatch ::
  "'v env \<Rightarrow> OutputPlugin \<Rightarrow> ((retcode \<times> error option) \<times> OutputPlugin) outcome" where
  "sendCurrentBatch e s =
     (if length (records s) = 0 then Return ((FLB_OK, None), s)
      else if Timeout_Check (now e) (timer s) then Exit
      else
        (case PutRecordBatch e
                \<lparr>DeliveryStreamName = deliveryStream s, Records = records s\<rparr> of
           Inl err \<Rightarrow>
             Return ((FLB_RETRY, Some err), s\<lparr>timer := Timeout_Start (now e) (timer s)\<rparr>)
         | Inr response \<Rightarrow> processAPIResponse e response s))"

definition Flush :: "'v env \<Rightarrow> OutputPlugin \<Rightarrow> (retcode \<times> OutputPlugin) outcome" where
  "Flush e s =
     (case sendCurrentBatch e s of
        Return ((retCode, err), s') \<Rightarrow> Return (retCode, s')
      | Exit \<Rightarrow> Exit
      | Panic \<Rightarrow> Panic)"

text \<open>
  \<open>issuesDelivery e s\<close>: \<^verbatim>\<open>sendCurrentBatch\<close>, called in state \<open>s\<close>, reaches line 307 and
  hands the pending batch to the client (the batch is not empty and the watchdog does
  not end the process).
\<close>

definition issuesDelivery :: "'v env \<Rightarrow> OutputPlugin \<Rightarrow> bool" where
  "issuesDelivery e s = (length (records s) \<noteq> 0 \<and> \<not> Timeout_Check (now e) (timer s))"

subsection \<open>AddRecord (lines 183--221)\<close>

text \<open>
  \<open>stampRecord\<close> is lines 184--192: with a time key, the time stamp is formatted and
  stored in the record under that key; a formatting error is returned, and a nil
  formatter panics. The time stamp is the time that the caller's pointer points to. \<open>sendIfFull\<close> is lines 202--206: the implicit send, with the status
  that lets \<^verbatim>\<open>AddRecord\<close> go on when there is none. \<open>appendRecord\<close> is lines 212--219.
\<close>

definition stampRecord ::
  "OutputPlugin \<Rightarrow> 'v fluent_record \<Rightarrow> int \<Rightarrow> (error + 'v fluent_record) outcome" where
  "stampRecord s record timeStamp =
     (if timeKey s \<noteq> [] then
        (case fmtStrftime s of
           None \<Rightarrow> Panic
         | Some format \<Rightarrow>
           (case format timeStamp of
              Inl err \<Rightarrow> Return (Inl err)
            | Inr buf \<Rightarrow> Return (Inr (record(Str (timeKey s) \<mapsto> Str buf)))))
      else Return (Inr record))"

definition sendIfFull ::
  "'v env \<Rightarrow> OutputPlugin \<Rightarrow> int \<Rightarrow> (retcode \<times> OutputPlugin) outcome" where
  "sendIfFull e s newDataSize =
     (if int (length (records s)) = maximumRecordsPerPut
         \<or> dataLength s + newDataSize > maximumPutRecordBatchSize
      then (case sendCurrentBatch e s of
              Return ((retCode, err), s') \<Rightarrow> Return (retCode, s')
            | Exit \<Rightarrow> Exit
            | Panic \<Rightarrow> Panic)
      else Return (FLB_OK, s))"

definition appendRecord :: "OutputPlugin \<Rightarrow> bytes \<Rightarrow> OutputPlugin" where
  "appendRecord s data =
     (let newDataSize = int (length data);
          n = length (records s);
          s' = (if simpleAggregation s \<and> n > 0
                   \<and> int (length (Data (records s ! (n - 1)))) + newDataSize \<le> maximumRecordSize
                then s\<lparr>records := (records s)
                        [n - 1 := (records s ! (n - 1))
                                    \<lparr>Data := Data (records s ! (n - 1)) @ data\<rparr>]\<rparr>
                else s\<lparr>records := records s @ [\<lparr>Data = data\<rparr>]\<rparr>)
      in s'\<lparr>dataLength := dataLength s + newDataSize\<rparr>)"

definition AddRecord ::
  "'v env \<Rightarrow> OutputPlugin \<Rightarrow> 'v fluent_record \<Rightarrow> int \<Rightarrow> (retcode \<times> OutputPlugin) outcome" where
  "AddRecord e s record timeStamp =
     (case stampRecord s record timeStamp of
        Exit \<Rightarrow> Exit
      | Panic \<Rightarrow> Panic
      | Return (Inl err) \<Rightarrow> Return (FLB_ERROR, s)
      | Return (Inr record') \<Rightarrow>
        (case processRecord e s record' of
           Inl err \<Rightarrow> Return (FLB_OK, s)
         | Inr data \<Rightarrow>
           (case sendIfFull e s (int (length data)) of
              Exit \<Rightarrow> Exit
            | Panic \<Rightarrow> Panic
            | Return (retCode, s1) \<Rightarrow>
                if retCode \<noteq> FLB_OK then Return (retCode, s1)
                else Return (FLB_OK, appendRecord s1 data))))"

subsection \<open>Sequences of calls\<close>

text \<open>
  A caller's calls, each with the environment it finds, run one after the other from a
  state; the run ends with the process when a call exits or panics.
\<close>

datatype 'v call = CallAddRecord "'v fluent_record" int | CallFlush | CallSend

definition doCall :: "'v env \<Rightarrow> 'v call \<Rightarrow> OutputPlugin \<Rightarrow> OutputPlugin outcome" where
  "doCall e c s =
     (case c of
        CallAddRecord record timeStamp \<Rightarrow>
          (case AddRecord e s record timeStamp of
             Return (retCode, s') \<Rightarrow> Return s' | Exit \<Rightarrow> Exit | Panic \<Rightarrow> Panic)
      | CallFlush \<Rightarrow>
          (case Flush e s of Return (retCode, s') \<Rightarrow> Return s' | Exit \<Rightarrow> Exit | Panic \<Rightarrow> Panic)
      | CallSend \<Rightarrow>
          (case sendCurrentBatch e s of
             Return (r, s') \<Rightarrow> Return s' | Exit \<Rightarrow> Exit | Panic \<Rightarrow> Panic))"

fun run :: "('v env \<times> 'v call) list \<Rightarrow> OutputPlugin \<Rightarrow> OutputPlugin outcome" where
  "run [] s = Return s"
| "run ((e, c) # rest) s =
     (case doCall e c s of Return s' \<Rightarrow> run rest s' | Exit \<Rightarrow> Exit | Panic \<Rightarrow> Panic)"

subsection \<open>The delivery client's contract\<close>

text \<open>
  What a client that keeps its contract answers to a request: a transport error, or a
  response with one outcome per record of the request and a failed count that is the
  number of outcomes with an error.
\<close>

definition withinContract ::
  "PutRecordBatchInput \<Rightarrow> error + PutRecordBatchOutput \<Rightarrow> bool" where
  "withinContract input reply =
     (case reply of
        Inl err \<Rightarrow> True
      | Inr response \<Rightarrow>
          length (RequestResponses response) = length (Records input)
          \<and> Int64Value (FailedPutCount response)
              = int (length (filter (\<lambda>entry. ErrorMessage entry \<noteq> None)
                                    (RequestResponses response))))"

subsection \<open>Sample values\<close>

text \<open>
  Concrete inputs for the examples below. The sample plugin is what \<open>NewOutputPlugin\<close>
  builds for a stream with the log key \<^verbatim>\<open>log\<close> and no time key; the sample environment
  has the clock at a given instant, a given client, and the log-key encoding of a record
  whose \<^verbatim>\<open>log\<close> entry is a string (that string's bytes).
\<close>

definition sampleTimer :: Timeout where
  "sampleTimer = \<lparr>failingSince = None, threshold = 60\<rparr>"

definition sampleFormat :: "int \<Rightarrow> error + string" where
  "sampleFormat t = Inr ''1970-01-01T00:00:00''"

definition samplePlugin :: "bool \<Rightarrow> OutputPlugin" where
  "samplePlugin agg =
     \<lparr>region = ''us-west-2'', deliveryStream = ''logs'', dataKeys = [], timeKey = [],
      fmtStrftime = None, logKey = ''log'', records = [], dataLength = 0,
      timer = sampleTimer, PluginID = 0, replaceDots = [], simpleAggregation = agg\<rparr>"

definition sampleEnv ::
  "int \<Rightarrow> (PutRecordBatchInput \<Rightarrow> error + PutRecordBatchOutput) \<Rightarrow> unit env" where
  "sampleEnv t client =
     \<lparr>now = t, PutRecordBatch = client,
      DataKeys = (\<lambda>keys record. record),
      DecodeMap = (\<lambda>record. Inr record),
      replaceDotsFn = (\<lambda>record replacement. record),
      LogKey = (\<lambda>record key. case record (Str key) of
                                None \<Rightarrow> Inl (Errorf ''log key not found'')
                              | Some v \<Rightarrow> Inr v),
      EncodeLogKey = (\<lambda>v. case v of
                              Str str \<Rightarrow> (str, None)
                            | Dyn _ \<Rightarrow> ([], Some (Errorf ''log value is not a string''))),
      Marshal = (\<lambda>record. Inl (Errorf ''no JSON encoder''))\<rparr>"

definition logRecord :: "string \<Rightarrow> unit fluent_record" where
  "logRecord v = [Str ''log'' \<mapsto> Str v]"

definition accepted :: PutRecordBatchResponseEntry where
  "accepted = \<lparr>ErrorCode = None, ErrorMessage = None, RecordId = Some ''id''\<rparr>"

definition rejected :: "string \<Rightarrow> PutRecordBatchResponseEntry" where
  "rejected code = \<lparr>ErrorCode = Some code, ErrorMessage = Some ''failed'', RecordId = None\<rparr>"

text \<open>A client that fails at the transport layer.\<close>

definition failingClient :: "PutRecordBatchInput \<Rightarrow> error + PutRecordBatchOutput" where
  "failingClient input = Inl (AwsError ''InternalFailure'' ''connection reset'')"

text \<open>
  A client within its contract (one outcome per record, in order, and the count of the
  rejected ones) that accepts the records of at most two bytes and rejects the others.
\<close>

definition pickyClient :: "PutRecordBatchInput \<Rightarrow> error + PutRecordBatchOutput" where
  "pickyClient input =
     Inr \<lparr>FailedPutCount =
            Some (int (length (filter (\<lambda>r. 2 < length (Data r)) (Records input)))),
          RequestResponses =
            map (\<lambda>r. if 2 < length (Data r) then rejected ''InternalFailure'' else accepted)
                (Records input)\<rparr>"

text \<open>A plugin holding five records of two bytes, with the watchdog as given.\<close>

definition fiveHeld :: "int option \<Rightarrow> OutputPlugin" where
  "fiveHeld since =
     (samplePlugin False)
       \<lparr>records := [\<lparr>Data = ''r0''\<rparr>, \<lparr>Data = ''r1''\<rparr>, \<lparr>Data = ''r2''\<rparr>,
                   \<lparr>Data = ''r3''\<rparr>, \<lparr>Data = ''r4''\<rparr>],
        dataLength := 10,
        timer := \<lparr>failingSince = since, threshold = 60\<rparr>\<rparr>"

text \<open>
  Six calls of \<^verbatim>\<open>AddRecord\<close> on a new plugin, with the picky client: a record of one
  byte (two with its newline) and five of 1,023,999 bytes (1,024,000 with theirs).
\<close>

definition bigLog :: string where
  "bigLog = replicate 1023999 (CHR ''b'')"

definition sixCalls :: "(unit env \<times> unit call) list" where
  "sixCalls =
     [(sampleEnv 0 pickyClient, CallAddRecord (logRecord ''a'') 0),
      (sampleEnv 1 pickyClient, CallAddRecord (logRecord bigLog) 1),
      (sampleEnv 2 pickyClient, CallAddRecord (logRecord bigLog) 2),
      (sampleEnv 3 pickyClient, CallAddRecord (logRecord bigLog) 3),
      (sampleEnv 4 pickyClient, CallAddRecord (logRecord bigLog) 4),
      (sampleEnv 5 pickyClient, CallAddRecord (logRecord bigLog) 5)]"

text \<open>
  A client that enforces the service's limits on a request (500 records, 4 MiB) and
  accepts every record of a request within them.
\<close>

definition limitClient :: "PutRecordBatchInput \<Rightarrow> error + PutRecordBatchOutput" where
  "limitClient input =
     (if maximumRecordsPerPut < int (length (Records input))
         \<or> maximumPutRecordBatchSize < totalLength (Records input)
      then Inl (AwsError ''InvalidArgumentException'' ''request too large'')
      else Inr \<lparr>FailedPutCount = Some 0,
               RequestResponses = map (\<lambda>r. accepted) (Records input)\<rparr>)"

text \<open>Plugins holding one record of 100 bytes, and 500 records of two bytes.\<close>

definition hundredHeld :: "bool \<Rightarrow> OutputPlugin" where
  "hundredHeld agg =
     (samplePlugin agg)
       \<lparr>records := [\<lparr>Data = replicate 99 (CHR ''x'') @ [CHR 0x0A]\<rparr>], dataLength := 100\<rparr>"

definition fullHeld :: OutputPlugin where
  "fullHeld =
     (samplePlugin False)\<lparr>records := replicate 500 \<lparr>Data = ''r0''\<rparr>, dataLength := 1000\<rparr>"

text \<open>Two calls of \<^verbatim>\<open>AddRecord\<close> and a \<^verbatim>\<open>Flush\<close> on a new plugin, with the picky client.\<close>

definition threeCalls :: "(unit env \<times> unit call) list" where
  "threeCalls =
     [(sampleEnv 0 pickyClient, CallAddRecord (logRecord ''a'') 0),
      (sampleEnv 1 pickyClient, CallAddRecord (logRecord ''bcd'') 1),
      (sampleEnv 2 pickyClient, CallFlush)]"

text \<open>Five records of 1,024,000 bytes.\<close>

definition fiveBig :: "Record list" where
  "fiveBig = [\<lparr>Data = bigLog @ [CHR 0x0A]\<rparr>, \<lparr>Data = bigLog @ [CHR 0x0A]\<rparr>,
              \<lparr>Data = bigLog @ [CHR 0x0A]\<rparr>, \<lparr>Data = bigLog @ [CHR 0x0A]\<rparr>,
              \<lparr>Data = bigLog @ [CHR 0x0A]\<rparr>]"

section \<open>Properties\<close>

subsection \<open>Helper facts\<close>

lemmas sample_defs =
  sampleTimer_def sampleFormat_def samplePlugin_def sampleEnv_def logRecord_def accepted_def
  rejected_def failingClient_def fiveHeld_def

lemmas run_defs =
  doCall_def AddRecord_def Flush_def stampRecord_def sendIfFull_def processRecord_def
  encodeRecord_def truncateRecord_def appendRecord_def sendCurrentBatch_def
  processAPIResponse_def Timeout_Check_def Timeout_Start_def Timeout_Reset_def
  totalLength_def Int64Value_def StringValue_def ErrCodeServiceUnavailableException_def
  maximumRecordSize_def maximumRecordsPerPut_def maximumPutRecordBatchSize_def Let_def

lemma bigLog_length: "length bigLog = 1023999"
  by (simp add: bigLog_def)

lemma totalLength_sum: "totalLength rs = (\<Sum>r\<leftarrow>rs. int (length (Data r)))"
proof -
  have "foldl (\<lambda>n record. n + int (length (Data record))) a rs
          = a + (\<Sum>r\<leftarrow>rs. int (length (Data r)))" for a
    by (induction rs arbitrary: a) simp_all
  then show ?thesis by (simp add: totalLength_def)
qed

text \<open>
  The walk over the outcomes, when the response has no more outcomes than records
  are left: without a service-unavailable code it collects the records whose outcome
  has an error message, in order; with one it stops.
\<close>

lemma collectFailed_no_overload:
  assumes "i + length entries \<le> length rs"
    and "\<forall>entry \<in> set entries.
           StringValue (ErrorCode entry) \<noteq> ErrCodeServiceUnavailableException"
  shows "collectFailed rs entries i acc =
           Collected (acc @ map fst (filter (\<lambda>(r, entry). ErrorMessage entry \<noteq> None)
                                            (zip (drop i rs) entries)))"
  using assms
proof (induction entries arbitrary: i acc)
  case Nil
  then show ?case by simp
next
  case (Cons entry rest)
  from Cons.prems have i: "i < length rs" by simp
  then have d: "drop i rs = rs ! i # drop (Suc i) rs"
    by (simp add: Cons_nth_drop_Suc)
  from Cons.prems have "Suc i + length rest \<le> length rs" by simp
  moreover from Cons.prems
  have "\<forall>entry \<in> set rest. StringValue (ErrorCode entry) \<noteq> ErrCodeServiceUnavailableException"
    by simp
  ultimately have IH: "collectFailed rs rest (Suc i) acc' =
      Collected (acc' @ map fst (filter (\<lambda>(r, entry). ErrorMessage entry \<noteq> None)
                                        (zip (drop (Suc i) rs) rest)))" for acc'
    by (rule Cons.IH)
  from Cons.prems have "StringValue (ErrorCode entry) \<noteq> ErrCodeServiceUnavailableException"
    by simp
  with i show ?case by (simp add: IH d)
qed

lemma collectFailed_overload:
  assumes "i + length entries \<le> length rs"
    and "\<exists>entry \<in> set entries.
           StringValue (ErrorCode entry) = ErrCodeServiceUnavailableException"
  shows "collectFailed rs entries i acc = Overloaded"
  using assms
proof (induction entries arbitrary: i acc)
  case Nil
  then show ?case by simp
next
  case (Cons entry rest)
  from Cons.prems have i: "i < length rs" by simp
  show ?case
  proof (cases "StringValue (ErrorCode entry) = ErrCodeServiceUnavailableException")
    case True
    with i show ?thesis by simp
  next
    case False
    with Cons.prems
    have "\<exists>entry \<in> set rest. StringValue (ErrorCode entry) = ErrCodeServiceUnavailableException"
      by simp
    moreover from Cons.prems have "Suc i + length rest \<le> length rs" by simp
    ultimately have "collectFailed rs rest (Suc i) acc' = Overloaded" for acc'
      by (rule Cons.IH[rotated])
    with i False show ?thesis by simp
  qed
qed

subsection \<open>Response processing\<close>

text \<open>
  C8. For a response whose failed count is 0, \<^verbatim>\<open>processAPIResponse\<close> clears the
  watchdog's failing-since, empties the pending batch, sets the tracked size to 0 and
  returns \<^verbatim>\<open>FLB_OK\<close> with no error; nothing else of the plugin changes.
\<close>

theorem processAPIResponse_full_success:
  assumes "Int64Value (FailedPutCount response) = 0"
  shows "processAPIResponse e response s =
           Return ((FLB_OK, None),
                   s\<lparr>timer := Timeout_Reset (timer s), records := [], dataLength := 0\<rparr>)
         \<and> failingSince (Timeout_Reset (timer s)) = None
         \<and> threshold (Timeout_Reset (timer s)) = threshold (timer s)"
  using assms by (simp add: processAPIResponse_def Timeout_Reset_def)

text \<open>Five records held and failing since 3: all five accepted.\<close>

theorem processAPIResponse_full_success_witness:
  "Int64Value (FailedPutCount \<lparr>FailedPutCount = Some 0,
                               RequestResponses = replicate 5 accepted\<rparr>) = 0
   \<and> processAPIResponse (sampleEnv 9 failingClient)
       \<lparr>FailedPutCount = Some 0, RequestResponses = replicate 5 accepted\<rparr> (fiveHeld (Some 3))
     = Return ((FLB_OK, None), samplePlugin False)"
  using processAPIResponse_full_success
    [of "\<lparr>FailedPutCount = Some 0, RequestResponses = replicate 5 accepted\<rparr>"
        "sampleEnv 9 failingClient" "fiveHeld (Some 3)"]
  by (simp add: sample_defs Int64Value_def Timeout_Reset_def)

text \<open>
  C4. For a response whose failed count equals the number of records sent (at least one:
  \<^verbatim>\<open>sendCurrentBatch\<close> sends no empty batch), \<^verbatim>\<open>processAPIResponse\<close> starts the watchdog
  if it is not started (failing-since becomes now, or stays what it was), returns
  \<^verbatim>\<open>FLB_RETRY\<close> with the error that no records were received, and changes nothing else:
  the pending batch and the tracked size are as they were.
\<close>

theorem processAPIResponse_total_failure:
  assumes "records s \<noteq> []"
    and "Int64Value (FailedPutCount response) = int (length (records s))"
  shows "processAPIResponse e response s =
           Return ((FLB_RETRY, Some noRecordsReceived),
                   s\<lparr>timer := Timeout_Start (now e) (timer s)\<rparr>)
         \<and> failingSince (Timeout_Start (now e) (timer s))
             = Some (case failingSince (timer s) of None \<Rightarrow> now e | Some t0 \<Rightarrow> t0)
         \<and> threshold (Timeout_Start (now e) (timer s)) = threshold (timer s)"
  using assms by (simp add: processAPIResponse_def Timeout_Start_def split: option.splits)

text \<open>Five of five records rejected at instant 9, not failing before, and failing since 3.\<close>

theorem processAPIResponse_total_failure_witness:
  "records (fiveHeld None) \<noteq> []
   \<and> processAPIResponse (sampleEnv 9 failingClient)
       \<lparr>FailedPutCount = Some 5,
        RequestResponses = replicate 5 (rejected ''InternalFailure'')\<rparr> (fiveHeld None)
     = Return ((FLB_RETRY,
                Some (Errorf
                  ''PutRecordBatch request returned with no records successfully recieved'')),
               fiveHeld (Some 9))
   \<and> processAPIResponse (sampleEnv 9 failingClient)
       \<lparr>FailedPutCount = Some 5,
        RequestResponses = replicate 5 (rejected ''InternalFailure'')\<rparr> (fiveHeld (Some 3))
     = Return ((FLB_RETRY,
                Some (Errorf
                  ''PutRecordBatch request returned with no records successfully recieved'')),
               fiveHeld (Some 3))"
  using processAPIResponse_total_failure
    [of "fiveHeld None"
        "\<lparr>FailedPutCount = Some 5,
          RequestResponses = replicate 5 (rejected ''InternalFailure'')\<rparr>"
        "sampleEnv 9 failingClient"]
    processAPIResponse_total_failure
    [of "fiveHeld (Some 3)"
        "\<lparr>FailedPutCount = Some 5,
          RequestResponses = replicate 5 (rejected ''InternalFailure'')\<rparr>"
        "sampleEnv 9 failingClient"]
  by (simp add: sample_defs Int64Value_def noRecordsReceived_def Timeout_Start_def)

text \<open>
  At the level of the send the batch is not empty: when \<^verbatim>\<open>sendCurrentBatch\<close> issues a
  delivery and every record is reported failed, it returns the same.
\<close>

lemma sendCurrentBatch_total_failure:
  assumes "issuesDelivery e s"
    and "PutRecordBatch e \<lparr>DeliveryStreamName = deliveryStream s, Records = records s\<rparr>
           = Inr response"
    and "Int64Value (FailedPutCount response) = int (length (records s))"
  shows "sendCurrentBatch e s =
           Return ((FLB_RETRY, Some noRecordsReceived),
                   s\<lparr>timer := Timeout_Start (now e) (timer s)\<rparr>)"
  using assms by (simp add: sendCurrentBatch_def issuesDelivery_def processAPIResponse_def)

text \<open>
  C2. For a response with 0 < failed count < number of records sent, one outcome per
  record and no outcome with the service-unavailable code, \<^verbatim>\<open>processAPIResponse\<close>
  replaces the pending batch by the records whose outcome has an error (an error
  message: that is what line 340 tests), in their order, sets the tracked size to the
  sum of their lengths and returns \<^verbatim>\<open>FLB_OK\<close> with no error.
\<close>

theorem processAPIResponse_partial_failure:
  assumes "0 < Int64Value (FailedPutCount response)"
    and "Int64Value (FailedPutCount response) < int (length (records s))"
    and "length (RequestResponses response) = length (records s)"
    and "\<forall>entry \<in> set (RequestResponses response).
           ErrorCode entry \<noteq> Some ErrCodeServiceUnavailableException"
  shows "processAPIResponse e response s =
           Return ((FLB_OK, None),
             s\<lparr>records := map fst (filter (\<lambda>(r, entry). ErrorMessage entry \<noteq> None)
                                          (zip (records s) (RequestResponses response))),
               dataLength :=
                 (\<Sum>r\<leftarrow>map fst (filter (\<lambda>(r, entry). ErrorMessage entry \<noteq> None)
                                       (zip (records s) (RequestResponses response))).
                    int (length (Data r)))\<rparr>)"
proof -
  have "StringValue (ErrorCode entry) \<noteq> ErrCodeServiceUnavailableException"
    if "entry \<in> set (RequestResponses response)" for entry
    using that assms(4)
    by (cases "ErrorCode entry")
       (auto simp: StringValue_def ErrCodeServiceUnavailableException_def)
  then have "collectFailed (records s) (RequestResponses response) 0 [] =
      Collected ([] @ map fst (filter (\<lambda>(r, entry). ErrorMessage entry \<noteq> None)
                                 (zip (drop 0 (records s)) (RequestResponses response))))"
    using assms(3) by (intro collectFailed_no_overload) simp_all
  with assms(1,2) show ?thesis
    by (simp add: processAPIResponse_def totalLength_sum)
qed

text \<open>Five records held; the second and the fourth are rejected.\<close>

theorem processAPIResponse_partial_failure_witness:
  "processAPIResponse (sampleEnv 9 failingClient)
     \<lparr>FailedPutCount = Some 2,
      RequestResponses = [accepted, rejected ''InternalFailure'', accepted,
                          rejected ''InternalFailure'', accepted]\<rparr>
     (fiveHeld None) =
   Return ((FLB_OK, None),
           (fiveHeld None)\<lparr>records := [\<lparr>Data = ''r1''\<rparr>, \<lparr>Data = ''r3''\<rparr>],
                            dataLength := 4\<rparr>)"
  using processAPIResponse_partial_failure
    [of "\<lparr>FailedPutCount = Some 2,
          RequestResponses = [accepted, rejected ''InternalFailure'', accepted,
                              rejected ''InternalFailure'', accepted]\<rparr>"
        "fiveHeld None" "sampleEnv 9 failingClient"]
  by (simp add: sample_defs Int64Value_def ErrCodeServiceUnavailableException_def)

text \<open>
  C3. For a response with 0 < failed count < number of records sent, one outcome per
  record and some outcome with the service-unavailable code, \<^verbatim>\<open>processAPIResponse\<close>
  returns \<^verbatim>\<open>FLB_RETRY\<close> with no error and leaves the plugin as it was: the whole pending
  batch, the accepted records included, and the tracked size.
\<close>

theorem processAPIResponse_overloaded:
  assumes "0 < Int64Value (FailedPutCount response)"
    and "Int64Value (FailedPutCount response) < int (length (records s))"
    and "length (RequestResponses response) = length (records s)"
    and "\<exists>entry \<in> set (RequestResponses response).
           ErrorCode entry = Some ErrCodeServiceUnavailableException"
  shows "processAPIResponse e response s = Return ((FLB_RETRY, None), s)"
proof -
  from assms(4) have "\<exists>entry \<in> set (RequestResponses response).
      StringValue (ErrorCode entry) = ErrCodeServiceUnavailableException"
    by (force simp: StringValue_def)
  then have "collectFailed (records s) (RequestResponses response) 0 [] = Overloaded"
    using assms(3) by (intro collectFailed_overload) simp_all
  with assms(1,2) show ?thesis
    by (simp add: processAPIResponse_def)
qed

text \<open>Five records held; the second is rejected and the fourth is throttled.\<close>

theorem processAPIResponse_overloaded_witness:
  "processAPIResponse (sampleEnv 9 failingClient)
     \<lparr>FailedPutCount = Some 2,
      RequestResponses = [accepted, rejected ''InternalFailure'', accepted,
                          rejected ''ServiceUnavailableException'', accepted]\<rparr>
     (fiveHeld None) =
   Return ((FLB_RETRY, None), fiveHeld None)"
  using processAPIResponse_overloaded
    [of "\<lparr>FailedPutCount = Some 2,
          RequestResponses = [accepted, rejected ''InternalFailure'', accepted,
                              rejected ''ServiceUnavailableException'', accepted]\<rparr>"
        "fiveHeld None" "sampleEnv 9 failingClient"]
  by (simp add: sample_defs Int64Value_def ErrCodeServiceUnavailableException_def)

subsection \<open>Encoding\<close>

text \<open>
  C6. When the encoded record, newline included, is longer than 1,024,000 bytes,
  \<^verbatim>\<open>processRecord\<close> returns its first 1,023,986 bytes followed by the truncation suffix,
  which is 1,024,000 bytes long and ends with \<^verbatim>\<open>[Truncated...]\<close>; an encoded record of at
  most 1,024,000 bytes is returned as it is.
\<close>

theorem processRecord_truncates:
  assumes "encodeRecord e s record = Inr data"
  shows "(int (length data) > 1024000 \<longrightarrow>
            processRecord e s record = Inr (take 1023986 data @ ''[Truncated...]'')
            \<and> length (take 1023986 data @ ''[Truncated...]'') = 1024000
            \<and> suffix truncatedSuffix (take 1023986 data @ ''[Truncated...]''))
       \<and> (int (length data) \<le> 1024000 \<longrightarrow> processRecord e s record = Inr data)"
  using assms
  by (simp add: processRecord_def truncateRecord_def maximumRecordSize_def truncatedSuffix_def
                suffix_def)

text \<open>A log line of 1,024,000 bytes (1,024,001 with its newline), and a short one.\<close>

theorem processRecord_truncates_witness:
  "encodeRecord (sampleEnv 0 failingClient) (samplePlugin False)
       (logRecord (replicate 1024000 (CHR ''b'')))
     = Inr (replicate 1024000 (CHR ''b'') @ [CHR 0x0A])
   \<and> processRecord (sampleEnv 0 failingClient) (samplePlugin False)
       (logRecord (replicate 1024000 (CHR ''b'')))
     = Inr (replicate 1023986 (CHR ''b'') @ ''[Truncated...]'')
   \<and> encodeRecord (sampleEnv 0 failingClient) (samplePlugin False) (logRecord ''short'')
     = Inr (''short'' @ [CHR 0x0A])
   \<and> processRecord (sampleEnv 0 failingClient) (samplePlugin False) (logRecord ''short'')
     = Inr (''short'' @ [CHR 0x0A])"
proof -
  have long: "encodeRecord (sampleEnv 0 failingClient) (samplePlugin False)
       (logRecord (replicate 1024000 (CHR ''b'')))
     = Inr (replicate 1024000 (CHR ''b'') @ [CHR 0x0A])"
    by (simp add: encodeRecord_def sample_defs)
  have short: "encodeRecord (sampleEnv 0 failingClient) (samplePlugin False)
       (logRecord ''short'') = Inr (''short'' @ [CHR 0x0A])"
    by (simp add: encodeRecord_def sample_defs)
  show ?thesis
    using processRecord_truncates [OF long] processRecord_truncates [OF short] long short
    by simp
qed

subsection \<open>AddRecord\<close>

lemma appendRecord_eq:
  "appendRecord s data =
     s\<lparr>records :=
         (if simpleAggregation s \<and> records s \<noteq> []
             \<and> int (length (Data (last (records s)))) + int (length data) \<le> 1024000
          then butlast (records s) @ [\<lparr>Data = Data (last (records s)) @ data\<rparr>]
          else records s @ [\<lparr>Data = data\<rparr>]),
       dataLength := dataLength s + int (length data)\<rparr>"
proof (cases "records s = []")
  case True
  then show ?thesis by (simp add: appendRecord_def Let_def)
next
  case False
  have "rs \<noteq> [] \<Longrightarrow> rs[length rs - 1 := x] = butlast rs @ [x]"
    for rs :: "Record list" and x
    by (induction rs rule: rev_induct) simp_all
  with False
  have upd: "(records s)[length (records s) - 1 := x] = butlast (records s) @ [x]" for x
    by blast
  from False have lst: "records s ! (length (records s) - 1) = last (records s)"
    by (simp add: last_conv_nth)
  from False show ?thesis
    unfolding appendRecord_def Let_def upd lst by (simp add: maximumRecordSize_def)
qed

text \<open>
  C7. When \<^verbatim>\<open>AddRecord\<close> has encoded the record and gone past the implicit send (none
  was due, or it returned \<^verbatim>\<open>FLB_OK\<close>), leaving the plugin in state \<open>s1\<close>: if aggregation
  is enabled, the pending batch is not empty and the length of the last record's data
  plus the new length is at most 1,024,000, the new bytes are appended to the last
  record's data and the batch keeps its number of entries; in every other case a new
  entry with the new bytes is appended. The tracked size grows by the new length and
  \<^verbatim>\<open>FLB_OK\<close> is returned.
\<close>

theorem AddRecord_appends:
  assumes "stampRecord s record timeStamp = Return (Inr record')"
    and "processRecord e s record' = Inr data"
    and "sendIfFull e s (int (length data)) = Return (FLB_OK, s1)"
  shows "AddRecord e s record timeStamp =
           Return (FLB_OK,
             s1\<lparr>records :=
                  (if simpleAggregation s1 \<and> records s1 \<noteq> []
                      \<and> int (length (Data (last (records s1)))) + int (length data) \<le> 1024000
                   then butlast (records s1) @ [\<lparr>Data = Data (last (records s1)) @ data\<rparr>]
                   else records s1 @ [\<lparr>Data = data\<rparr>]),
                dataLength := dataLength s1 + int (length data)\<rparr>)"
  using assms by (simp add: AddRecord_def appendRecord_eq)

text \<open>
  A record of 100 bytes held and one of 200 bytes added: one entry of 300 bytes with
  aggregation, two entries without.
\<close>

theorem AddRecord_appends_witness:
  "AddRecord (sampleEnv 0 failingClient) (hundredHeld True)
       (logRecord (replicate 199 (CHR ''y''))) 0 =
     Return (FLB_OK,
       (samplePlugin True)
         \<lparr>records := [\<lparr>Data = replicate 99 (CHR ''x'') @ [CHR 0x0A]
                                @ replicate 199 (CHR ''y'') @ [CHR 0x0A]\<rparr>],
          dataLength := 300\<rparr>)
   \<and> AddRecord (sampleEnv 0 failingClient) (hundredHeld False)
       (logRecord (replicate 199 (CHR ''y''))) 0 =
     Return (FLB_OK,
       (samplePlugin False)
         \<lparr>records := [\<lparr>Data = replicate 99 (CHR ''x'') @ [CHR 0x0A]\<rparr>,
                     \<lparr>Data = replicate 199 (CHR ''y'') @ [CHR 0x0A]\<rparr>],
          dataLength := 300\<rparr>)"
proof -
  have stamp: "stampRecord (hundredHeld agg) (logRecord (replicate 199 (CHR ''y''))) 0
      = Return (Inr (logRecord (replicate 199 (CHR ''y''))))" for agg
    by (simp add: stampRecord_def hundredHeld_def sample_defs)
  have enc: "processRecord (sampleEnv 0 failingClient) (hundredHeld agg)
      (logRecord (replicate 199 (CHR ''y''))) = Inr (replicate 199 (CHR ''y'') @ [CHR 0x0A])"
    for agg
    by (simp add: processRecord_def encodeRecord_def truncateRecord_def hundredHeld_def
                  sample_defs maximumRecordSize_def)
  have full: "sendIfFull (sampleEnv 0 failingClient) (hundredHeld agg)
      (int (length (replicate 199 (CHR ''y'') @ [CHR 0x0A]))) = Return (FLB_OK, hundredHeld agg)"
    for agg
    by (simp add: sendIfFull_def hundredHeld_def sample_defs maximumRecordsPerPut_def
                  maximumPutRecordBatchSize_def)
  show ?thesis
    using AddRecord_appends [OF stamp enc full, of True]
          AddRecord_appends [OF stamp enc full, of False]
    by (simp add: hundredHeld_def sample_defs)
qed

text \<open>
  C9. When \<^verbatim>\<open>AddRecord\<close> has encoded the record, the batch holds 500 records or the
  tracked size plus the new length exceeds 4,194,304, and the send this triggers returns
  a status other than \<^verbatim>\<open>FLB_OK\<close>, then \<^verbatim>\<open>AddRecord\<close> returns that status and the plugin is
  as the send left it: the new record is not in the pending batch.
\<close>

theorem AddRecord_failed_send:
  assumes "stampRecord s record timeStamp = Return (Inr record')"
    and "processRecord e s record' = Inr data"
    and "int (length (records s)) = maximumRecordsPerPut
         \<or> dataLength s + int (length data) > maximumPutRecordBatchSize"
    and "sendCurrentBatch e s = Return ((retCode, err), s1)"
    and "retCode \<noteq> FLB_OK"
  shows "AddRecord e s record timeStamp = Return (retCode, s1)"
  using assms by (auto simp: AddRecord_def sendIfFull_def)

text \<open>500 records held, a record added at instant 7, and the client fails.\<close>

theorem AddRecord_failed_send_witness:
  "int (length (records fullHeld)) = maximumRecordsPerPut
   \<and> AddRecord (sampleEnv 7 failingClient) fullHeld (logRecord ''new'') 7
       = Return (FLB_RETRY, fullHeld\<lparr>timer := \<lparr>failingSince = Some 7, threshold = 60\<rparr>\<rparr>)"
proof -
  have stamp: "stampRecord fullHeld (logRecord ''new'') 7 = Return (Inr (logRecord ''new''))"
    by (simp add: stampRecord_def fullHeld_def sample_defs)
  have enc: "processRecord (sampleEnv 7 failingClient) fullHeld (logRecord ''new'')
      = Inr (''new'' @ [CHR 0x0A])"
    by (simp add: processRecord_def encodeRecord_def truncateRecord_def fullHeld_def
                  sample_defs maximumRecordSize_def)
  have full: "int (length (records fullHeld)) = maximumRecordsPerPut"
    by (simp add: fullHeld_def maximumRecordsPerPut_def)
  have send: "sendCurrentBatch (sampleEnv 7 failingClient) fullHeld
      = Return ((FLB_RETRY, Some (AwsError ''InternalFailure'' ''connection reset'')),
                fullHeld\<lparr>timer := \<lparr>failingSince = Some 7, threshold = 60\<rparr>\<rparr>)"
    by (simp add: sendCurrentBatch_def fullHeld_def sample_defs Timeout_Check_def
                  Timeout_Start_def)
  show ?thesis
    using AddRecord_failed_send [OF stamp enc disjI1 [OF full] send] full by simp
qed

text \<open>
  An error of \<^verbatim>\<open>processRecord\<close> is absorbed: \<^verbatim>\<open>AddRecord\<close> returns \<^verbatim>\<open>FLB_OK\<close> and leaves
  the plugin as it was. With a log key, an error of \<^verbatim>\<open>EncodeLogKey\<close> is not one of
  these: the bytes it returned are stored with their newline.
\<close>

lemma AddRecord_encode_error:
  assumes "stampRecord s record timeStamp = Return (Inr record')"
    and "processRecord e s record' = Inl err"
  shows "AddRecord e s record timeStamp = Return (FLB_OK, s)"
  using assms by (simp add: AddRecord_def)

lemma encodeRecord_logKey:
  assumes "logKey s \<noteq> []"
    and "dataKeys s = []" and "replaceDots s = []"
    and "DecodeMap e record = Inr record'"
    and "LogKey e record' (logKey s) = Inr log"
  shows "encodeRecord e s record = Inr (fst (EncodeLogKey e log) @ [CHR 0x0A])"
  using assms by (simp add: encodeRecord_def split: prod.splits)

text \<open>
  A record whose log value is not a string, with the sample encoder (no bytes and an
  error): the error is lost and a record of the newline alone is stored.
\<close>

lemma AddRecord_lost_encode_error:
  "EncodeLogKey (sampleEnv 0 failingClient) (Dyn ())
     = ([], Some (Errorf ''log value is not a string''))
   \<and> AddRecord (sampleEnv 0 failingClient) (samplePlugin False) [Str ''log'' \<mapsto> Dyn ()] 0
     = Return (FLB_OK,
         (samplePlugin False)\<lparr>records := [\<lparr>Data = [CHR 0x0A]\<rparr>], dataLength := 1\<rparr>)"
  by (simp add: run_defs sample_defs)

subsection \<open>The tracked size\<close>

text \<open>
  Each step keeps the tracked size equal to the sum of the lengths of the pending
  records: appending adds the new length to both, and response processing either leaves
  both alone or recomputes the size from the records it keeps.
\<close>

lemma sum_lengths_update:
  assumes "k < length rs"
  shows "(\<Sum>r\<leftarrow>rs[k := x]. int (length (Data r))) =
         (\<Sum>r\<leftarrow>rs. int (length (Data r))) + int (length (Data x)) - int (length (Data (rs ! k)))"
  using assms by (induction rs arbitrary: k) (auto split: nat.splits)

lemma appendRecord_dataLength:
  "dataLength (appendRecord s data) = dataLength s + int (length data)"
  by (simp add: appendRecord_def Let_def)

lemma appendRecord_sum:
  "(\<Sum>r\<leftarrow>records (appendRecord s data). int (length (Data r))) =
   (\<Sum>r\<leftarrow>records s. int (length (Data r))) + int (length data)"
  by (simp add: appendRecord_def Let_def sum_lengths_update)

lemma processAPIResponse_accounted:
  assumes "processAPIResponse e response s = Return (r, s')"
    and "dataLength s = (\<Sum>r\<leftarrow>records s. int (length (Data r)))"
  shows "dataLength s' = (\<Sum>r\<leftarrow>records s'. int (length (Data r)))"
  using assms
  by (auto simp: processAPIResponse_def totalLength_sum split: if_splits walk.splits)

lemma sendCurrentBatch_accounted:
  assumes "sendCurrentBatch e s = Return (r, s')"
    and "dataLength s = (\<Sum>r\<leftarrow>records s. int (length (Data r)))"
  shows "dataLength s' = (\<Sum>r\<leftarrow>records s'. int (length (Data r)))"
proof (cases "issuesDelivery e s")
  case False
  with assms show ?thesis
    by (auto simp: sendCurrentBatch_def issuesDelivery_def split: if_splits)
next
  case True
  show ?thesis
  proof (cases "PutRecordBatch e \<lparr>DeliveryStreamName = deliveryStream s, Records = records s\<rparr>")
    case (Inl err)
    with True assms show ?thesis
      by (auto simp: sendCurrentBatch_def issuesDelivery_def)
  next
    case (Inr response)
    with True assms(1) have "processAPIResponse e response s = Return (r, s')"
      by (simp add: sendCurrentBatch_def issuesDelivery_def)
    then show ?thesis using assms(2) by (rule processAPIResponse_accounted)
  qed
qed

lemma sendIfFull_accounted:
  assumes "sendIfFull e s n = Return (rc, s')"
    and "dataLength s = (\<Sum>r\<leftarrow>records s. int (length (Data r)))"
  shows "dataLength s' = (\<Sum>r\<leftarrow>records s'. int (length (Data r)))"
proof (cases "int (length (records s)) = maximumRecordsPerPut
         \<or> dataLength s + n > maximumPutRecordBatchSize")
  case False
  with assms show ?thesis by (simp add: sendIfFull_def)
next
  case True
  with assms(1) obtain err where "sendCurrentBatch e s = Return ((rc, err), s')"
    by (auto simp: sendIfFull_def split: outcome.splits)
  then show ?thesis using assms(2) by (rule sendCurrentBatch_accounted)
qed

lemma AddRecord_accounted:
  assumes "AddRecord e s record timeStamp = Return (rc, s')"
    and "dataLength s = (\<Sum>r\<leftarrow>records s. int (length (Data r)))"
  shows "dataLength s' = (\<Sum>r\<leftarrow>records s'. int (length (Data r)))"
proof (cases "\<exists>record' data s1. stampRecord s record timeStamp = Return (Inr record')
          \<and> processRecord e s record' = Inr data
          \<and> sendIfFull e s (int (length data)) = Return (FLB_OK, s1)")
  case True
  then obtain record' data s1 where
    "stampRecord s record timeStamp = Return (Inr record')"
    "processRecord e s record' = Inr data"
    and full: "sendIfFull e s (int (length data)) = Return (FLB_OK, s1)"
    by blast
  with assms(1) have s': "s' = appendRecord s1 data"
    by (simp add: AddRecord_def)
  from full assms(2) have "dataLength s1 = (\<Sum>r\<leftarrow>records s1. int (length (Data r)))"
    by (rule sendIfFull_accounted)
  then show ?thesis
    by (simp add: s' appendRecord_dataLength appendRecord_sum)
next
  case False
  with assms show ?thesis
    by (auto simp: AddRecord_def split: outcome.splits sum.splits if_splits
             dest: sendIfFull_accounted)
qed

lemma Flush_accounted:
  assumes "Flush e s = Return (rc, s')"
    and "dataLength s = (\<Sum>r\<leftarrow>records s. int (length (Data r)))"
  shows "dataLength s' = (\<Sum>r\<leftarrow>records s'. int (length (Data r)))"
  using assms
  by (auto simp: Flush_def split: outcome.splits dest: sendCurrentBatch_accounted)

lemma doCall_accounted:
  assumes "doCall e c s = Return s'"
    and "dataLength s = (\<Sum>r\<leftarrow>records s. int (length (Data r)))"
  shows "dataLength s' = (\<Sum>r\<leftarrow>records s'. int (length (Data r)))"
  using assms
  by (auto simp: doCall_def split: call.splits outcome.splits
           dest: AddRecord_accounted Flush_accounted sendCurrentBatch_accounted)

lemma run_accounted:
  assumes "run calls s = Return s'"
    and "dataLength s = (\<Sum>r\<leftarrow>records s. int (length (Data r)))"
  shows "dataLength s' = (\<Sum>r\<leftarrow>records s'. int (length (Data r)))"
  using assms
proof (induction calls arbitrary: s)
  case Nil
  then show ?case by simp
next
  case (Cons ec calls)
  obtain e c where ec: "ec = (e, c)" by (cases ec)
  with Cons.prems(1) obtain s1 where s1: "doCall e c s = Return s1" and r: "run calls s1 = Return s'"
    by (auto split: outcome.splits)
  from s1 Cons.prems(2) have "dataLength s1 = (\<Sum>r\<leftarrow>records s1. int (length (Data r)))"
    by (rule doCall_accounted)
  with r show ?case by (rule Cons.IH)
qed

lemma NewOutputPlugin_empty:
  assumes "NewOutputPlugin b t f rg ds dk tk tf lk rd pid agg = Inr s"
  shows "records s = [] \<and> dataLength s = 0"
  using assms by (auto simp: NewOutputPlugin_def split: sum.splits if_splits)

text \<open>
  C5. In every state that a sequence of \<^verbatim>\<open>AddRecord\<close>, \<^verbatim>\<open>Flush\<close> and send calls reaches
  from a newly constructed plugin, whatever the environment answers, the tracked size
  \<^verbatim>\<open>dataLength\<close> is the sum of the lengths of the data of the records in the pending
  batch.
\<close>

theorem dataLength_tracks_records:
  assumes "NewOutputPlugin b t f rg ds dk tk tf lk rd pid agg = Inr s0"
    and "run calls s0 = Return s"
  shows "dataLength s = (\<Sum>r\<leftarrow>records s. int (length (Data r)))"
proof -
  from assms(1) have "dataLength s0 = (\<Sum>r\<leftarrow>records s0. int (length (Data r)))"
    by (simp add: NewOutputPlugin_empty)
  with assms(2) show ?thesis by (rule run_accounted)
qed

text \<open>Two records added and a flush that leaves the second one behind.\<close>

theorem dataLength_tracks_records_witness:
  "NewOutputPlugin (Inr ()) (Inr sampleTimer) (\<lambda>fmt. Inr sampleFormat)
       ''us-west-2'' ''logs'' [] [] [] ''log'' [] 0 False = Inr (samplePlugin False)
   \<and> run threeCalls (samplePlugin False)
       = Return ((samplePlugin False)\<lparr>records := [\<lparr>Data = ''bcd'' @ [CHR 0x0A]\<rparr>],
                                       dataLength := 4\<rparr>)
   \<and> dataLength ((samplePlugin False)\<lparr>records := [\<lparr>Data = ''bcd'' @ [CHR 0x0A]\<rparr>],
                                       dataLength := 4\<rparr>)
       = (\<Sum>r\<leftarrow>records ((samplePlugin False)\<lparr>records := [\<lparr>Data = ''bcd'' @ [CHR 0x0A]\<rparr>],
                                       dataLength := 4\<rparr>). int (length (Data r)))"
proof -
  have new: "NewOutputPlugin (Inr ()) (Inr sampleTimer) (\<lambda>fmt. Inr sampleFormat)
       ''us-west-2'' ''logs'' [] [] [] ''log'' [] 0 False = Inr (samplePlugin False)"
    by (simp add: NewOutputPlugin_def samplePlugin_def)
  have ran: "run threeCalls (samplePlugin False)
       = Return ((samplePlugin False)\<lparr>records := [\<lparr>Data = ''bcd'' @ [CHR 0x0A]\<rparr>],
                                       dataLength := 4\<rparr>)"
    by (simp add: threeCalls_def run_defs pickyClient_def sample_defs)
  show ?thesis
    using dataLength_tracks_records [OF new ran] new ran by simp
qed

subsection \<open>The limits of a delivery\<close>

text \<open>
  When \<^verbatim>\<open>sendCurrentBatch\<close> issues a delivery, the client receives the whole pending
  batch; otherwise the client is not called.
\<close>

lemma sendCurrentBatch_delivers:
  assumes "issuesDelivery e s"
  shows "sendCurrentBatch e s =
           (case PutRecordBatch e \<lparr>DeliveryStreamName = deliveryStream s, Records = records s\<rparr> of
              Inl err \<Rightarrow>
                Return ((FLB_RETRY, Some err), s\<lparr>timer := Timeout_Start (now e) (timer s)\<rparr>)
            | Inr response \<Rightarrow> processAPIResponse e response s)"
  using assms by (simp add: sendCurrentBatch_def issuesDelivery_def)

lemma sendCurrentBatch_no_delivery:
  assumes "\<not> issuesDelivery e s"
  shows "sendCurrentBatch e s = (if records s = [] then Return ((FLB_OK, None), s) else Exit)"
  using assms by (auto simp: sendCurrentBatch_def issuesDelivery_def)

text \<open>
  C1. The byte limit does not hold at every delivery. Six records are added to a new
  plugin: one of 2 bytes and five of 1,024,000 bytes. The sixth call finds 4,096,002
  bytes pending and sends them first; the client accepts the small record and rejects
  the four large ones, so the send keeps these four and returns \<^verbatim>\<open>FLB_OK\<close>, and the sixth
  record is appended to them without a second test of the limit. The pending batch then
  holds five records of 5,120,000 bytes in all, and the next send hands them to the
  client in one request, which a client enforcing the limit refuses.
\<close>

theorem oversized_delivery:
  "NewOutputPlugin (Inr ()) (Inr sampleTimer) (\<lambda>fmt. Inr sampleFormat)
       ''us-west-2'' ''logs'' [] [] [] ''log'' [] 0 False = Inr (samplePlugin False)
   \<and> run sixCalls (samplePlugin False)
     = Return ((samplePlugin False)\<lparr>records := fiveBig, dataLength := 5120000\<rparr>)
   \<and> issuesDelivery (sampleEnv 6 limitClient)
        ((samplePlugin False)\<lparr>records := fiveBig, dataLength := 5120000\<rparr>)
   \<and> int (length fiveBig) = 5
   \<and> (\<Sum>r\<leftarrow>fiveBig. int (length (Data r))) = 5120000
   \<and> maximumPutRecordBatchSize < (\<Sum>r\<leftarrow>fiveBig. int (length (Data r)))
   \<and> sendCurrentBatch (sampleEnv 6 limitClient)
        ((samplePlugin False)\<lparr>records := fiveBig, dataLength := 5120000\<rparr>)
     = Return ((FLB_RETRY, Some (AwsError ''InvalidArgumentException'' ''request too large'')),
               (samplePlugin False)
                 \<lparr>records := fiveBig, dataLength := 5120000,
                  timer := \<lparr>failingSince = Some 6, threshold = 60\<rparr>\<rparr>)
   \<and> Flush (sampleEnv 6 limitClient)
        ((samplePlugin False)\<lparr>records := fiveBig, dataLength := 5120000\<rparr>)
     = Return (FLB_RETRY,
               (samplePlugin False)
                 \<lparr>records := fiveBig, dataLength := 5120000,
                  timer := \<lparr>failingSince = Some 6, threshold = 60\<rparr>\<rparr>)"
  by (simp add: NewOutputPlugin_def sixCalls_def run_defs pickyClient_def limitClient_def
                issuesDelivery_def sample_defs fiveBig_def bigLog_length)

text \<open>
  The walk collects one record for each outcome with an error message, and no more
  records than the batch holds from the index on.
\<close>

lemma collectFailed_length:
  assumes "collectFailed rs entries i acc = Collected failed"
  shows "length failed
           = length acc + length (filter (\<lambda>entry. ErrorMessage entry \<noteq> None) entries)"
  using assms
  by (induction entries arbitrary: i acc) (auto split: if_splits)

lemma collectFailed_le:
  assumes "collectFailed rs entries i acc = Collected failed"
  shows "length failed \<le> length acc + (length rs - i)"
  using assms
proof (induction entries arbitrary: i acc)
  case Nil
  then show ?case by simp
next
  case (Cons entry rest)
  show ?case
  proof (cases "ErrorMessage entry \<noteq> None")
    case True
    with Cons.prems have i: "i < length rs"
      and "collectFailed rs rest (Suc i) (acc @ [rs ! i]) = Collected failed"
      by (auto split: if_splits)
    then have "length failed \<le> length (acc @ [rs ! i]) + (length rs - Suc i)"
      using Cons.IH by blast
    with i show ?thesis by simp
  next
    case False
    with Cons.prems have "collectFailed rs rest (Suc i) acc = Collected failed"
      by (auto split: if_splits)
    then have "length failed \<le> length acc + (length rs - Suc i)"
      using Cons.IH by blast
    then show ?thesis by simp
  qed
qed

lemma processAPIResponse_shrinks:
  assumes "processAPIResponse e response s = Return ((FLB_OK, err), s')"
    and "withinContract \<lparr>DeliveryStreamName = deliveryStream s, Records = records s\<rparr>
           (Inr response)"
    and "records s \<noteq> []"
  shows "length (records s') < length (records s)"
proof (cases "Int64Value (FailedPutCount response) > 0")
  case False
  with assms(1,3) show ?thesis by (auto simp: processAPIResponse_def)
next
  case True
  with assms(1) obtain failed where
    ne: "Int64Value (FailedPutCount response) \<noteq> int (length (records s))"
    and c: "collectFailed (records s) (RequestResponses response) 0 [] = Collected failed"
    and s': "records s' = failed"
    by (auto simp: processAPIResponse_def split: if_splits walk.splits)
  from c have "length failed
      = length (filter (\<lambda>entry. ErrorMessage entry \<noteq> None) (RequestResponses response))"
    by (simp add: collectFailed_length)
  with assms(2) have "int (length failed) = Int64Value (FailedPutCount response)"
    by (simp add: withinContract_def)
  moreover from c have "length failed \<le> length (records s)"
    using collectFailed_le by fastforce
  ultimately show ?thesis using ne s' by simp
qed

lemma sendCurrentBatch_shrinks:
  assumes "sendCurrentBatch e s = Return ((FLB_OK, err), s')"
    and "\<forall>input. withinContract input (PutRecordBatch e input)"
  shows "length (records s') < length (records s) \<or> records s' = []"
proof (cases "issuesDelivery e s")
  case False
  with assms(1) show ?thesis
    by (auto simp: sendCurrentBatch_no_delivery split: if_splits)
next
  case True
  then have ne: "records s \<noteq> []" by (simp add: issuesDelivery_def)
  show ?thesis
  proof (cases "PutRecordBatch e \<lparr>DeliveryStreamName = deliveryStream s, Records = records s\<rparr>")
    case (Inl x)
    with True assms(1) show ?thesis by (simp add: sendCurrentBatch_delivers)
  next
    case (Inr response)
    with True assms(1) have "processAPIResponse e response s = Return ((FLB_OK, err), s')"
      by (simp add: sendCurrentBatch_delivers)
    moreover from assms(2) Inr
    have "withinContract \<lparr>DeliveryStreamName = deliveryStream s, Records = records s\<rparr>
            (Inr response)"
      by metis
    ultimately show ?thesis using ne by (simp add: processAPIResponse_shrinks)
  qed
qed

lemma sendCurrentBatch_no_growth:
  assumes "sendCurrentBatch e s = Return (r, s')"
  shows "length (records s') \<le> length (records s)"
proof (cases "issuesDelivery e s")
  case False
  with assms(1) show ?thesis
    by (auto simp: sendCurrentBatch_no_delivery split: if_splits)
next
  case True
  show ?thesis
  proof (cases "PutRecordBatch e \<lparr>DeliveryStreamName = deliveryStream s, Records = records s\<rparr>")
    case (Inl x)
    with True assms(1) show ?thesis by (auto simp: sendCurrentBatch_delivers)
  next
    case (Inr response)
    with True assms(1) have p: "processAPIResponse e response s = Return (r, s')"
      by (simp add: sendCurrentBatch_delivers)
    then show ?thesis
      using collectFailed_le [of "records s" "RequestResponses response" 0 "[]"]
      by (auto simp: processAPIResponse_def split: if_splits walk.splits)
  qed
qed

lemma appendRecord_length:
  "length (records (appendRecord s data)) \<le> Suc (length (records s))"
  by (simp add: appendRecord_eq)

lemma AddRecord_bounded:
  assumes "AddRecord e s record timeStamp = Return (rc, s')"
    and "\<forall>input. withinContract input (PutRecordBatch e input)"
    and "int (length (records s)) \<le> maximumRecordsPerPut"
  shows "int (length (records s')) \<le> maximumRecordsPerPut"
proof (cases "\<exists>record' data s1. stampRecord s record timeStamp = Return (Inr record')
          \<and> processRecord e s record' = Inr data
          \<and> sendIfFull e s (int (length data)) = Return (FLB_OK, s1)")
  case True
  then obtain record' data s1 where
    "stampRecord s record timeStamp = Return (Inr record')"
    "processRecord e s record' = Inr data"
    and full: "sendIfFull e s (int (length data)) = Return (FLB_OK, s1)"
    by blast
  with assms(1) have s': "s' = appendRecord s1 data"
    by (simp add: AddRecord_def)
  have "length (records s1) < 500"
  proof (cases "int (length (records s)) = maximumRecordsPerPut
         \<or> dataLength s + int (length data) > maximumPutRecordBatchSize")
    case False
    with full assms(3) show ?thesis
      by (simp add: sendIfFull_def maximumRecordsPerPut_def)
  next
    case True
    with full obtain err where "sendCurrentBatch e s = Return ((FLB_OK, err), s1)"
      by (auto simp: sendIfFull_def split: outcome.splits)
    from sendCurrentBatch_shrinks [OF this assms(2)] assms(3) show ?thesis
      by (auto simp: maximumRecordsPerPut_def)
  qed
  with appendRecord_length [of s1 data] show ?thesis
    by (simp add: s' maximumRecordsPerPut_def)
next
  case False
  with assms(1,3) show ?thesis
    by (auto simp: AddRecord_def sendIfFull_def split: outcome.splits sum.splits if_splits
             dest!: sendCurrentBatch_no_growth)
qed

lemma doCall_bounded:
  assumes "doCall e c s = Return s'"
    and "\<forall>input. withinContract input (PutRecordBatch e input)"
    and "int (length (records s)) \<le> maximumRecordsPerPut"
  shows "int (length (records s')) \<le> maximumRecordsPerPut"
proof (cases c)
  case (CallAddRecord logrec ts)
  with assms(1) obtain rc where "AddRecord e s logrec ts = Return (rc, s')"
    by (auto simp: doCall_def split: outcome.splits)
  then show ?thesis using assms(2,3) by (rule AddRecord_bounded)
next
  case CallFlush
  with assms(1) obtain r where "sendCurrentBatch e s = Return (r, s')"
    by (auto simp: doCall_def Flush_def split: outcome.splits)
  from sendCurrentBatch_no_growth [OF this] assms(3) show ?thesis by simp
next
  case CallSend
  with assms(1) obtain r where "sendCurrentBatch e s = Return (r, s')"
    by (auto simp: doCall_def split: outcome.splits)
  from sendCurrentBatch_no_growth [OF this] assms(3) show ?thesis by simp
qed

text \<open>
  The limit on the number of records does hold: with clients that keep their contract,
  a pending batch of at most 500 records stays one through every sequence of calls, so
  no delivery is issued with more than 500 records.
\<close>

lemma run_bounded:
  assumes "run calls s = Return s'"
    and "\<forall>(e, c) \<in> set calls. \<forall>input. withinContract input (PutRecordBatch e input)"
    and "int (length (records s)) \<le> maximumRecordsPerPut"
  shows "int (length (records s')) \<le> maximumRecordsPerPut"
  using assms
proof (induction calls arbitrary: s)
  case Nil
  then show ?case by simp
next
  case (Cons ec calls)
  obtain e c where ec: "ec = (e, c)" by (cases ec)
  with Cons.prems(1) obtain s1 where s1: "doCall e c s = Return s1"
    and r: "run calls s1 = Return s'"
    by (auto split: outcome.splits)
  from Cons.prems(2) ec have "\<forall>input. withinContract input (PutRecordBatch e input)"
    by simp
  with s1 have "int (length (records s1)) \<le> maximumRecordsPerPut"
    using Cons.prems(3) by (rule doCall_bounded)
  moreover from Cons.prems(2)
  have "\<forall>(e, c) \<in> set calls. \<forall>input. withinContract input (PutRecordBatch e input)"
    by simp
  ultimately show ?case using r Cons.IH by blast
qed


lemma pickyClient_withinContract: "withinContract input (pickyClient input)"
proof -
  have "length (filter (\<lambda>entry. ErrorMessage entry \<noteq> None)
           (map (\<lambda>r. if 2 < length (Data r) then rejected ''InternalFailure'' else accepted) rs))
        = length (filter (\<lambda>r. 2 < length (Data r)) rs)" for rs :: "Record list"
    by (induction rs) (simp_all add: accepted_def rejected_def)
  then show ?thesis
    by (simp add: withinContract_def pickyClient_def Int64Value_def)
qed

text \<open>The six calls above keep the pending batch within 500 records: it ends with five.\<close>

theorem run_bounded_witness:
  "run sixCalls (samplePlugin False)
     = Return ((samplePlugin False)\<lparr>records := fiveBig, dataLength := 5120000\<rparr>)
   \<and> int (length (records (samplePlugin False))) \<le> maximumRecordsPerPut
   \<and> int (length (records
        ((samplePlugin False)\<lparr>records := fiveBig, dataLength := 5120000\<rparr>)))
       \<le> maximumRecordsPerPut"
proof -
  have ran: "run sixCalls (samplePlugin False)
     = Return ((samplePlugin False)\<lparr>records := fiveBig, dataLength := 5120000\<rparr>)"
    by (simp add: sixCalls_def run_defs pickyClient_def sample_defs fiveBig_def bigLog_length)
  have contract:
    "\<forall>(e, c) \<in> set sixCalls. \<forall>input. withinContract input (PutRecordBatch e input)"
    by (simp add: sixCalls_def sampleEnv_def pickyClient_withinContract)
  have start: "int (length (records (samplePlugin False))) \<le> maximumRecordsPerPut"
    by (simp add: samplePlugin_def maximumRecordsPerPut_def)
  show ?thesis
    using run_bounded [OF ran contract start] ran start by simp
qed

end
